theory Spec2Isabelle
  imports Complex_Main "HOL-Library.Sublist" "HOL-Library.Multiset"
begin

section \<open>The notebook \<open>Final_project.ipynb\<close>: data model and operations\<close>

text \<open>
  The notebook is a linear script of eight code cells. This theory embeds the parts of
  it that are written in the notebook itself: the template generator, the preprocessing
  and tokenisation data flow, the two-stage split, the control flow of the guarded and
  unguarded stages, the training and validation loops, the novelty score and the relevance ratio.
  Calls into the libraries (\<open>datasets\<close>, \<open>transformers\<close>, \<open>torch\<close>, \<open>numpy\<close>) are
  parameters of the definitions that use them.
\<close>

subsection \<open>Python strings\<close>

text \<open>
  A Python \<open>str\<close> is modelled as a \<open>string\<close>. \<open>py_in m s\<close> is the operator \<open>m in s\<close>
  (substring test) and \<open>occurrences m s\<close> lists the start positions of all occurrences
  of \<open>m\<close> in \<open>s\<close>, in increasing order.
\<close>

fun py_in :: "string \<Rightarrow> string \<Rightarrow> bool" where
  "py_in m [] = (m = [])"
| "py_in m (c # cs) = (prefix m (c # cs) \<or> py_in m cs)"

fun occurrences :: "string \<Rightarrow> string \<Rightarrow> nat list" where
  "occurrences m [] = (if m = [] then [0] else [])"
| "occurrences m (c # cs) =
     (if prefix m (c # cs) then [0] else []) @ map Suc (occurrences m cs)"

subsection \<open>Cell 3: the template generator\<close>

text \<open>
  \<^verbatim>\<open>
  def create_synthetic_proposal(sentence, label):
      sentiment = "positive" if label == 1 else "negative"
      problem = f"Analyze sentiment in short texts like: '{sentence}'"
      hypothesis = f"The {sentiment} sentiment can be detected using contextual embeddings."
      methodology = "Use a transformer-based model with fine-tuning on short-text datasets."
      return f"Problem: {problem}\nHypothesis: {hypothesis}\nMethodology: {methodology}"
  \<close>
  The label is a Python integer (the corpus has 0, 1 and, in its unlabelled split, -1).
\<close>

definition create_synthetic_proposal :: "string \<Rightarrow> int \<Rightarrow> string" where
  "create_synthetic_proposal sentence label =
     (let sentiment = (if label = 1 then ''positive'' else ''negative'');
          problem = ''Analyze sentiment in short texts like: '' @ [CHR 0x27] @ sentence @ [CHR 0x27];
          hypothesis = ''The '' @ sentiment @ '' sentiment can be detected using contextual embeddings.'';
          methodology = ''Use a transformer-based model with fine-tuning on short-text datasets.''
      in ''Problem: '' @ problem @ ''\<newline>Hypothesis: '' @ hypothesis
           @ ''\<newline>Methodology: '' @ methodology)"

text \<open>
  \<^verbatim>\<open>
  def preprocess_data(examples):
      inputs = [f"Propose a method for sentiment analysis of ambiguous short texts: {sentence}"
                for sentence in examples["sentence"]]
      targets = [create_synthetic_proposal(sentence, label)
                 for sentence, label in zip(examples["sentence"], examples["label"])]
      return {"input_text": inputs, "target_text": targets}
  \<close>
  A batch of examples is the pair of its two columns.
\<close>

definition preprocess_data :: "string list \<times> int list \<Rightarrow> string list \<times> string list" where
  "preprocess_data examples =
     (let inputs = [''Propose a method for sentiment analysis of ambiguous short texts: '' @ sentence.
                      sentence \<leftarrow> fst examples];
          targets = [create_synthetic_proposal sentence label.
                      (sentence, label) \<leftarrow> zip (fst examples) (snd examples)]
      in (inputs, targets))"

text \<open>
  The two constant pieces of the returned f-string that surround the quoted sentence.
  They are used to state where the sentence sits in the output.
\<close>

definition template_head :: string where
  "template_head = ''Problem: Analyze sentiment in short texts like: ''"

definition template_tail :: "int \<Rightarrow> string" where
  "template_tail label =
     ''\<newline>Hypothesis: The '' @ (if label = 1 then ''positive'' else ''negative'')
       @ '' sentiment can be detected using contextual embeddings.''
       @ ''\<newline>Methodology: Use a transformer-based model with fine-tuning on short-text datasets.''"

subsection \<open>Cell 8: the relevance ratio\<close>

datatype py_error = ZeroDivisionError | ValueError

text \<open>
  \<^verbatim>\<open>
  relevance = sum(1 for pred in generated
                  if "Problem:" in pred and "Hypothesis:" in pred and "Methodology:" in pred)
              / len(generated)
  \<close>
  Both operands of \<open>/\<close> are Python integers; \<open>/\<close> raises \<open>ZeroDivisionError\<close> on a zero
  divisor and otherwise returns the double nearest to the quotient. The model returns
  the quotient itself as a rational number (0 and 1 are doubles).
\<close>

definition has_all_markers :: "string \<Rightarrow> bool" where
  "has_all_markers pred \<longleftrightarrow>
     py_in ''Problem:'' pred \<and> py_in ''Hypothesis:'' pred \<and> py_in ''Methodology:'' pred"

definition relevance_numerator :: "string list \<Rightarrow> nat" where
  "relevance_numerator generated = sum_list [1. pred \<leftarrow> generated, has_all_markers pred]"

definition relevance :: "string list \<Rightarrow> py_error + rat" where
  "relevance generated =
     (if length generated = 0 then Inl ZeroDivisionError
      else Inr (of_nat (relevance_numerator generated) / of_nat (length generated)))"

subsection \<open>Cell 8: the novelty score\<close>






subsection \<open>Cell 4: the two-stage split\<close>

text \<open>
  \<^verbatim>\<open>
  train_val_data = train_data.train_test_split(test_size=0.2, seed=42)
  val_test_data = train_val_data["test"].train_test_split(test_size=0.5, seed=42)
  train_dataset = train_val_data["train"]
  val_dataset = val_test_data["train"]
  test_dataset = val_test_data["test"]
  \<close>
  \<open>train_test_split\<close> is the method of the \<open>datasets\<close> library. With a float
  \<open>test_size\<close>, no \<open>train_size\<close> and a seed it raises \<open>ValueError\<close> unless
  \<open>0 < test_size < 1\<close>, takes \<open>n_test = ceil(test_size * n_samples)\<close> and
  \<open>n_train = n_samples - n_test\<close>, raises \<open>ValueError\<close> when \<open>n_train\<close> is 0, draws
  \<open>permutation = default_rng(seed).permutation(n_samples)\<close> and selects the rows
  \<open>permutation[:n_test]\<close> as the test part and \<open>permutation[n_test:n_test + n_train]\<close> as
  the train part. The generator is the parameter \<open>permutation\<close> (seed and length to the
  list of indices). The fractions 0.2 and 0.5 are rationals here; that the double
  products have the same ceilings is shown below (\<open>double_product_ceiling\<close>,
  \<open>double_half_product\<close>). The result pair is (train, test).
\<close>

definition train_test_split ::
  "(nat \<Rightarrow> nat \<Rightarrow> nat list) \<Rightarrow> rat \<Rightarrow> nat \<Rightarrow> 'a list \<Rightarrow> py_error + ('a list \<times> 'a list)" where
  "train_test_split permutation test_size seed ds =
     (let n_samples = length ds in
      if test_size \<le> 0 \<or> test_size \<ge> 1 then Inl ValueError
      else
        let n_test = nat \<lceil>test_size * of_nat n_samples\<rceil>;
            n_train = n_samples - n_test
        in if n_train = 0 then Inl ValueError
           else
             let perm = permutation seed n_samples;
                 test_indices = take n_test perm;
                 train_indices = take n_train (drop n_test perm)
             in Inr (map ((!) ds) train_indices, map ((!) ds) test_indices))"

definition notebook_split ::
  "(nat \<Rightarrow> nat \<Rightarrow> nat list) \<Rightarrow> 'a list \<Rightarrow> py_error + ('a list \<times> 'a list \<times> 'a list)" where
  "notebook_split permutation train_data =
     (case train_test_split permutation (2 / 10) 42 train_data of
        Inl e \<Rightarrow> Inl e
      | Inr train_val_data \<Rightarrow>
          (case train_test_split permutation (5 / 10) 42 (snd train_val_data) of
             Inl e \<Rightarrow> Inl e
           | Inr val_test_data \<Rightarrow>
               Inr (fst train_val_data, fst val_test_data, snd val_test_data)))"

subsection \<open>Cells 6 and 7: tokenisation, collation and the positions the loss counts\<close>

text \<open>
  The tokenizer is loaded at run time (\<open>T5Tokenizer.from_pretrained\<close>); what it does to a
  text is the parameter \<open>encode_pieces\<close> (the vocabulary ids of the pieces of the text,
  without special tokens), and its two special ids are parameters too. Token ids are
  indices into the vocabulary, hence not negative.
\<close>

record tokenizer =
  encode_pieces :: "string \<Rightarrow> int list"
  eos_token_id :: int
  pad_token_id :: int

record batch_encoding =
  input_ids :: "int list"
  attention_mask :: "int list"

record features = batch_encoding +
  labels :: "int list"

text \<open>
  \<open>tokenizer(text, max_length=n, truncation=True, padding="max_length")\<close>: the pieces
  are cut to \<open>n - 1\<close> when pieces and end-of-sequence token together exceed \<open>n\<close>, the
  end-of-sequence id is appended, and the sequence is filled on the right with the pad
  id up to length \<open>n\<close>; the attention mask is 1 on the tokens and 0 on the padding.
\<close>

definition tokenizer_call :: "tokenizer \<Rightarrow> nat \<Rightarrow> string \<Rightarrow> batch_encoding" where
  "tokenizer_call tok max_length text =
     (let pieces = encode_pieces tok text;
          ids = (if length pieces + 1 > max_length then take (max_length - 1) pieces else pieces)
                  @ [eos_token_id tok];
          n_pad = max_length - length ids
      in \<lparr>input_ids = ids @ replicate n_pad (pad_token_id tok),
          attention_mask = replicate (length ids) 1 @ replicate n_pad 0\<rparr>)"

text \<open>
  \<^verbatim>\<open>
  def tokenize_function(examples):
      inputs = tokenizer(examples["input_text"], max_length=128, truncation=True, padding="max_length")
      targets = tokenizer(examples["target_text"], max_length=256, truncation=True, padding="max_length")
      inputs["labels"] = targets["input_ids"]
      return inputs
  \<close>
  The examples are the pair of the two text columns; the result is given row by row.
\<close>

definition tokenize_function :: "tokenizer \<Rightarrow> string list \<times> string list \<Rightarrow> features list" where
  "tokenize_function tok examples =
     (let inputs = map (tokenizer_call tok 128) (fst examples);
          targets = map (tokenizer_call tok 256) (snd examples)
      in map (\<lambda>(i, t). \<lparr>input_ids = input_ids i, attention_mask = attention_mask i,
                          labels = input_ids t\<rparr>) (zip inputs targets))"

text \<open>
  \<open>data_collator = DataCollatorForSeq2Seq(tokenizer, model=model)\<close>, the \<open>collate_fn\<close> of
  the three data loaders. With its defaults it fills the labels of a batch up to the
  longest label sequence of the batch with \<open>label_pad_token_id = -100\<close>, and the input
  ids and attention masks up to the longest input of the batch with the pad id and 0.
\<close>

definition label_pad_token_id :: int where
  "label_pad_token_id = - 100"

definition data_collator :: "tokenizer \<Rightarrow> features list \<Rightarrow> features list" where
  "data_collator tok batch =
     (let max_label_length = foldr max (map (\<lambda>f. length (labels f)) batch) 0;
          max_length = foldr max (map (\<lambda>f. length (input_ids f)) batch) 0
      in map (\<lambda>f. \<lparr>input_ids = input_ids f
                        @ replicate (max_length - length (input_ids f)) (pad_token_id tok),
                     attention_mask = attention_mask f
                        @ replicate (max_length - length (input_ids f)) 0,
                     labels = labels f
                        @ replicate (max_label_length - length (labels f)) label_pad_token_id\<rparr>)
           batch)"

text \<open>
  \<open>model(input_ids=..., attention_mask=..., labels=labels)\<close> computes the cross entropy
  over the label positions with \<open>ignore_index = -100\<close>: a position counts in the loss
  exactly when its label is not \<open>-100\<close>.
\<close>

definition ignore_index :: int where
  "ignore_index = - 100"

definition loss_positions :: "int list \<Rightarrow> nat list" where
  "loss_positions lbls = filter (\<lambda>p. lbls ! p \<noteq> ignore_index) [0..<length lbls]"

subsection \<open>Cells 2 to 8: guarded and unguarded stages\<close>

text \<open>
  A run executes the cells top to bottom and ends at the first exception that leaves a
  cell: no later statement is executed. What the host of the run does then is not part
  of the notebook and is not modelled (a Python process that runs the cells as a script
  exits; a notebook kernel ends the cell, drops the cells still queued and lives on).
  Each stage below is a stretch of the notebook made of library calls; whether it
  returns or raises in a given run is the environment \<open>env\<close>. An exception is an
  instance of \<open>Exception\<close> (or of a subclass) with its \<open>str\<close>, or one of the exceptions
  that derive from \<open>BaseException\<close> only. A run ends by completing the last cell, with
  the \<open>SystemExit\<close> that a handler raises, or with the exception of a stage.
\<close>

datatype stage =
  LoadDataset | PrintSample | Preprocess | Split | LoadModel | ApplyLora | Tokenize | Train
  | Evaluate

datatype py_exception =
  ExceptionInstance string | KeyboardInterrupt | OtherBaseException string

fun is_Exception :: "py_exception \<Rightarrow> bool" where
  "is_Exception (ExceptionInstance m) = True"
| "is_Exception KeyboardInterrupt = False"
| "is_Exception (OtherBaseException m) = False"

fun str_of :: "py_exception \<Rightarrow> string" where
  "str_of (ExceptionInstance m) = m"
| "str_of KeyboardInterrupt = []"
| "str_of (OtherBaseException m) = m"

datatype outcome = Returns | Raises py_exception

datatype out_line = StageOutput stage | Printed string

datatype exit_state = Completed | SystemExit string | Uncaught py_exception

record run =
  stdout :: "out_line list"
  final :: exit_state

text \<open>
  A stage outside any \<open>try\<close>: an exception it raises leaves the cell.
\<close>

definition unguarded ::
  "(stage \<Rightarrow> outcome) \<Rightarrow> stage \<Rightarrow> (out_line list \<Rightarrow> run) \<Rightarrow> out_line list \<Rightarrow> run" where
  "unguarded env st rest out =
     (case env st of
        Returns \<Rightarrow> rest (out @ [StageOutput st])
      | Raises e \<Rightarrow> \<lparr>stdout = out, final = Uncaught e\<rparr>)"

text \<open>
  \<^verbatim>\<open>
  try:
      <stage>
  except Exception as e:
      print(f"<diagnostic>{e}")
      raise SystemExit("<message>")
  \<close>
  The handler takes instances of \<open>Exception\<close> only.
\<close>

definition try_except ::
  "(stage \<Rightarrow> outcome) \<Rightarrow> stage \<Rightarrow> string \<Rightarrow> string \<Rightarrow> (out_line list \<Rightarrow> run)
     \<Rightarrow> out_line list \<Rightarrow> run" where
  "try_except env st diagnostic message rest out =
     (case env st of
        Returns \<Rightarrow> rest (out @ [StageOutput st])
      | Raises e \<Rightarrow>
          if is_Exception e
          then \<lparr>stdout = out @ [Printed (diagnostic @ str_of e)], final = SystemExit message\<rparr>
          else \<lparr>stdout = out, final = Uncaught e\<rparr>)"

definition notebook :: "(stage \<Rightarrow> outcome) \<Rightarrow> run" where
  "notebook env =
     try_except env LoadDataset ''Error loading dataset: ''
       ''Dataset loading failed. Please check Hugging Face access or try 'rotten_tomatoes' dataset.''
    (unguarded env PrintSample
    (try_except env Preprocess ''Error in preprocessing: ''
       ''Preprocessing failed. Check dataset structure.''
    (unguarded env Split
    (try_except env LoadModel ''Error loading model/tokenizer: ''
       ''Model loading failed. Check Hugging Face access.''
    (unguarded env ApplyLora
    (unguarded env Tokenize
    (unguarded env Train
    (unguarded env Evaluate
    (\<lambda>out. \<lparr>stdout = out, final = Completed\<rparr>))))))))) []"

text \<open>The stages in program order, and the first stage that raises in a run.\<close>

definition stages :: "stage list" where
  "stages = [LoadDataset, PrintSample, Preprocess, Split, LoadModel, ApplyLora, Tokenize, Train,
     Evaluate]"

definition first_failure :: "(stage \<Rightarrow> outcome) \<Rightarrow> stage option" where
  "first_failure env = find (\<lambda>st. env st \<noteq> Returns) stages"

text \<open>Two runs used as examples: every stage returns, and the same with one stage raising.\<close>

definition all_return :: "stage \<Rightarrow> outcome" where
  "all_return st = Returns"

definition raising :: "stage \<Rightarrow> py_exception \<Rightarrow> stage \<Rightarrow> outcome" where
  "raising st e = all_return(st := Raises e)"

subsection \<open>Cell 7: the training and validation loops\<close>

text \<open>
  The numeric backend is a parameter: \<open>forward\<close> is the call
  \<open>model(input_ids=..., attention_mask=..., labels=...)\<close> followed by \<open>.loss.item()\<close>, a
  function of the mode set by \<open>model.train()\<close> or \<open>model.eval()\<close>, of the parameters and
  of the batch; \<open>backward\<close> is \<open>loss.backward()\<close>, which adds the gradient of that loss
  to the stored gradients; \<open>optimizer_step\<close> is \<open>optimizer.step()\<close> and \<open>zero_grad\<close> is
  \<open>optimizer.zero_grad()\<close>. Python floats are real numbers here.
\<close>

record ('p, 'g, 'o, 'b) backend =
  forward :: "bool \<Rightarrow> 'p \<Rightarrow> 'b \<Rightarrow> real"
  backward :: "bool \<Rightarrow> 'p \<Rightarrow> 'b \<Rightarrow> 'g \<Rightarrow> 'g"
  optimizer_step :: "'o \<Rightarrow> 'p \<Rightarrow> 'g \<Rightarrow> 'o \<times> 'p"
  zero_grad :: "'g \<Rightarrow> 'g"

text \<open>
  The state the loops work on: the model parameters (frozen base weights and adapter
  matrices), the stored gradients, the optimizer state, the mode flag of the model, the
  two running sums and the two lists of epoch averages.
\<close>

record ('p, 'g, 'o) train_state =
  params :: 'p
  grads :: 'g
  opt_state :: 'o
  training :: bool
  total_loss :: real
  val_loss :: real
  train_losses :: "real list"
  val_losses :: "real list"

text \<open>
  \<^verbatim>\<open>
  outputs = model(input_ids=input_ids, attention_mask=attention_mask, labels=labels)
  loss = outputs.loss
  loss.backward()
  optimizer.step()
  optimizer.zero_grad()
  total_loss += loss.item()
  \<close>
\<close>

definition train_step ::
  "('p, 'g, 'o, 'b) backend \<Rightarrow> ('p, 'g, 'o) train_state \<Rightarrow> 'b \<Rightarrow> ('p, 'g, 'o) train_state" where
  "train_step lib s batch =
     (let loss = forward lib (training s) (params s) batch;
          g = backward lib (training s) (params s) batch (grads s);
          (opt, p) = optimizer_step lib (opt_state s) (params s) g
      in s\<lparr>params := p, grads := zero_grad lib g, opt_state := opt,
            total_loss := total_loss s + loss\<rparr>)"

text \<open>
  \<^verbatim>\<open>
  with torch.no_grad():
      for batch in tqdm(val_loader, desc="Validation"):
          ...
          outputs = model(input_ids=input_ids, attention_mask=attention_mask, labels=labels)
          val_loss += outputs.loss.item()
  \<close>
\<close>

definition validation_step ::
  "('p, 'g, 'o, 'b) backend \<Rightarrow> ('p, 'g, 'o) train_state \<Rightarrow> 'b \<Rightarrow> ('p, 'g, 'o) train_state" where
  "validation_step lib s batch =
     s\<lparr>val_loss := val_loss s + forward lib (training s) (params s) batch\<rparr>"

definition validation_loop ::
  "('p, 'g, 'o, 'b) backend \<Rightarrow> 'b list \<Rightarrow> ('p, 'g, 'o) train_state \<Rightarrow> ('p, 'g, 'o) train_state" where
  "validation_loop lib val_loader s = foldl (validation_step lib) s val_loader"

text \<open>
  The first half of an epoch: \<open>model.train()\<close>, \<open>total_loss = 0\<close>, the loop over the
  training batches, and the average \<open>total_loss / len(train_loader)\<close> appended to
  \<open>train_losses\<close>. Division by the number of batches raises on an empty loader.
\<close>

definition train_phase ::
  "('p, 'g, 'o, 'b) backend \<Rightarrow> 'b list \<Rightarrow> ('p, 'g, 'o) train_state
     \<Rightarrow> py_error + ('p, 'g, 'o) train_state" where
  "train_phase lib train_loader s =
     (let s1 = foldl (train_step lib) (s\<lparr>training := True, total_loss := 0\<rparr>) train_loader
      in if length train_loader = 0 then Inl ZeroDivisionError
         else Inr (s1\<lparr>train_losses :=
                      train_losses s1 @ [total_loss s1 / real (length train_loader)]\<rparr>))"

text \<open>
  The second half: \<open>model.eval()\<close>, \<open>val_loss = 0\<close>, the validation loop, and the average
  \<open>val_loss / len(val_loader)\<close> appended to \<open>val_losses\<close>.
\<close>

definition validation_phase ::
  "('p, 'g, 'o, 'b) backend \<Rightarrow> 'b list \<Rightarrow> ('p, 'g, 'o) train_state
     \<Rightarrow> py_error + ('p, 'g, 'o) train_state" where
  "validation_phase lib val_loader s =
     (let s1 = validation_loop lib val_loader (s\<lparr>training := False, val_loss := 0\<rparr>)
      in if length val_loader = 0 then Inl ZeroDivisionError
         else Inr (s1\<lparr>val_losses :=
                      val_losses s1 @ [val_loss s1 / real (length val_loader)]\<rparr>))"

text \<open>
  \<open>for epoch in range(EPOCHS)\<close>: the training loader is shuffled, so each epoch has its
  own list of training batches; the list given has one entry per epoch (five in the
  notebook).
\<close>

fun epochs ::
  "('p, 'g, 'o, 'b) backend \<Rightarrow> 'b list list \<Rightarrow> 'b list \<Rightarrow> ('p, 'g, 'o) train_state
     \<Rightarrow> py_error + ('p, 'g, 'o) train_state" where
  "epochs lib [] val_loader s = Inr s"
| "epochs lib (train_loader # rest) val_loader s =
     (case train_phase lib train_loader s of
        Inl e \<Rightarrow> Inl e
      | Inr s1 \<Rightarrow>
          (case validation_phase lib val_loader s1 of
             Inl e \<Rightarrow> Inl e
           | Inr s2 \<Rightarrow> epochs lib rest val_loader s2))"

text \<open>
  A small backend and state used as an example: one integer parameter, squared error
  against the batch value, plain gradient descent with step 1.
\<close>

definition toy_backend :: "(int, int, nat, int) backend" where
  "toy_backend =
     \<lparr>forward = (\<lambda>mode p b. of_int ((p - b) * (p - b))),
      backward = (\<lambda>mode p b g. g + 2 * (p - b)),
      optimizer_step = (\<lambda>n p g. (Suc n, p - g)),
      zero_grad = (\<lambda>g. 0)\<rparr>"

definition toy_state :: "(int, int, nat) train_state" where
  "toy_state =
     \<lparr>params = 3, grads = 0, opt_state = 7, training = True, total_loss = 5, val_loss = 0,
      train_losses = [5], val_losses = []\<rparr>"

subsection \<open>Double precision in the sizes of the split\<close>

text \<open>
  Double precision. \<open>bit_length\<close> is the number of binary digits of a natural number,
  \<open>ulp x\<close> the distance between neighbouring doubles at a value \<open>1 \<le> x < 2 ^ 53\<close>, and
  \<open>round_to_double\<close> rounds such a value to the nearest double, ties to the even
  significand, as the multiplication of two doubles rounds its exact product.
  \<open>double_0_2\<close> is the double that the literal \<open>0.2\<close> denotes.
\<close>

fun bit_length :: "nat \<Rightarrow> nat" where
  "bit_length n = (if n = 0 then 0 else Suc (bit_length (n div 2)))"

definition round_half_even :: "rat \<Rightarrow> int" where
  "round_half_even y =
     (let f = \<lfloor>y\<rfloor>; r = y - of_int f
      in if r < 1 / 2 then f else if 1 / 2 < r then f + 1 else if even f then f else f + 1)"

definition ulp :: "rat \<Rightarrow> rat" where
  "ulp x = 1 / 2 ^ (53 - bit_length (nat \<lfloor>x\<rfloor>))"

definition round_to_double :: "rat \<Rightarrow> rat" where
  "round_to_double x = of_int (round_half_even (x / ulp x)) * ulp x"

definition double_0_2 :: rat where
  "double_0_2 = 3602879701896397 / 18014398509481984"


section \<open>Properties\<close>

subsection \<open>Substrings\<close>

lemma py_in_occurrences: "py_in m s \<longleftrightarrow> occurrences m s \<noteq> []"
  by (induction s) auto

lemma py_in_iff: "py_in m s \<longleftrightarrow> (\<exists>a b. s = a @ m @ b)"
proof (induction s)
  case Nil
  then show ?case by auto
next
  case (Cons c cs)
  show ?case
  proof
    assume "py_in m (c # cs)"
    then consider "prefix m (c # cs)" | "py_in m cs" by auto
    then show "\<exists>a b. c # cs = a @ m @ b"
    proof cases
      case 1
      then obtain b where "c # cs = m @ b" by (auto simp: prefix_def)
      then have "c # cs = [] @ m @ b" by simp
      then show ?thesis by blast
    next
      case 2
      with Cons obtain a b where "cs = a @ m @ b" by auto
      then have "c # cs = (c # a) @ m @ b" by simp
      then show ?thesis by blast
    qed
  next
    assume "\<exists>a b. c # cs = a @ m @ b"
    then obtain a b where ab: "c # cs = a @ m @ b" by auto
    show "py_in m (c # cs)"
    proof (cases a)
      case Nil
      with ab have "prefix m (c # cs)" by (simp add: prefix_def)
      then show ?thesis by simp
    next
      case (Cons x a')
      with ab have "cs = a' @ m @ b" by simp
      with Cons.IH have "py_in m cs" by blast
      then show ?thesis by simp
    qed
  qed
qed

text \<open>
  A character that does not occur in the marker separates the text: no occurrence of
  the marker can straddle it.
\<close>

lemma prefix_append_sep:
  assumes "c \<notin> set m"
  shows "prefix m (xs @ c # ys) \<longleftrightarrow> prefix m xs"
proof
  assume p: "prefix m (xs @ c # ys)"
  show "prefix m xs"
  proof (rule ccontr)
    assume n: "\<not> prefix m xs"
    from p have "prefix m xs \<or> (\<exists>us. prefix us (c # ys) \<and> m = xs @ us)"
      by (auto simp: prefix_append)
    with n obtain us where us: "prefix us (c # ys)" "m = xs @ us" by blast
    with n have "us \<noteq> []" by auto
    with us(1) have "hd us = c" by (cases us) auto
    with \<open>us \<noteq> []\<close> have "c \<in> set us" by (cases us) auto
    with us(2) assms show False by simp
  qed
next
  assume "prefix m xs"
  then show "prefix m (xs @ c # ys)" by (rule prefix_prefix)
qed

lemma occurrences_sep_head:
  assumes "m \<noteq> []" "c \<notin> set m"
  shows "occurrences m (c # ys) = map Suc (occurrences m ys)"
proof -
  from assms(1) obtain a m' where m: "m = a # m'" by (cases m) auto
  with assms(2) have "a \<noteq> c" by auto
  with m have "\<not> prefix m (c # ys)" by simp
  then show ?thesis by simp
qed

lemma occurrences_append_sep:
  assumes "m \<noteq> []" "c \<notin> set m"
  shows "occurrences m (xs @ c # ys) =
           occurrences m xs @ map (\<lambda>i. Suc (length xs) + i) (occurrences m ys)"
proof (induction xs)
  case Nil
  from assms show ?case
    by (simp add: occurrences_sep_head del: occurrences.simps(2))
next
  case (Cons x xs)
  have "prefix m ((x # xs) @ c # ys) \<longleftrightarrow> prefix m (x # xs)"
    using assms(2) by (rule prefix_append_sep)
  with Cons show ?case by (simp add: comp_def)
qed

lemma occurrences_quoted:
  assumes "m \<noteq> []" "q \<notin> set m"
  shows "occurrences m (h @ q # s @ q # t) =
           occurrences m h @ map (\<lambda>i. Suc (length h) + i) (occurrences m s)
             @ map (\<lambda>i. Suc (length h) + Suc (length s) + i) (occurrences m t)"
proof -
  have "occurrences m (h @ q # (s @ q # t)) =
          occurrences m h @ map (\<lambda>i. Suc (length h) + i) (occurrences m (s @ q # t))"
    using assms by (rule occurrences_append_sep)
  also have "occurrences m (s @ q # t) =
          occurrences m s @ map (\<lambda>i. Suc (length s) + i) (occurrences m t)"
    using assms by (rule occurrences_append_sep)
  finally show ?thesis by (simp add: comp_def)
qed

subsection \<open>The template generator\<close>

lemma create_synthetic_proposal_shape:
  "create_synthetic_proposal sentence label =
     template_head @ CHR 0x27 # sentence @ CHR 0x27 # template_tail label"
  by (simp add: create_synthetic_proposal_def template_head_def template_tail_def)

lemma occurrences_template_head:
  "occurrences ''Problem:'' template_head = [0]"
  "occurrences ''Hypothesis:'' template_head = []"
  "occurrences ''Methodology:'' template_head = []"
  "length template_head = 48"
  by (simp_all add: template_head_def)

lemma occurrences_template_tail:
  "occurrences ''Problem:'' (template_tail label) = []"
  "occurrences ''Hypothesis:'' (template_tail label) = [1]"
  "occurrences ''Methodology:'' (template_tail label) = [81]"
  by (simp_all add: template_tail_def)

text \<open>
  Each marker occurs in the output once more than in the sentence: the template adds
  exactly one occurrence of each, and the sentence is copied verbatim.
\<close>

lemma occurrences_create_synthetic_proposal:
  "occurrences ''Problem:'' (create_synthetic_proposal sentence label) =
     0 # map (\<lambda>i. 49 + i) (occurrences ''Problem:'' sentence)"
  "occurrences ''Hypothesis:'' (create_synthetic_proposal sentence label) =
     map (\<lambda>i. 49 + i) (occurrences ''Hypothesis:'' sentence) @ [length sentence + 51]"
  "occurrences ''Methodology:'' (create_synthetic_proposal sentence label) =
     map (\<lambda>i. 49 + i) (occurrences ''Methodology:'' sentence) @ [length sentence + 131]"
  by (simp_all add: create_synthetic_proposal_shape occurrences_quoted
        occurrences_template_head occurrences_template_tail del: occurrences.simps(2))

text \<open>
  Claim C3. For the sentence \<open>a stirring, funny and finally transporting re-imagining\<close>
  with label 1, \<open>create_synthetic_proposal\<close> returns exactly the three-line text below,
  with real newline characters between the sections.
\<close>

theorem create_synthetic_proposal_example:
  "create_synthetic_proposal ''a stirring, funny and finally transporting re-imagining'' 1 =
     ''Problem: Analyze sentiment in short texts like: 'a stirring, funny and finally transporting re-imagining'\<newline>Hypothesis: The positive sentiment can be detected using contextual embeddings.\<newline>Methodology: Use a transformer-based model with fine-tuning on short-text datasets.''"
  by (simp add: create_synthetic_proposal_def)

text \<open>
  Claim C2, amended. For every sentence that contains none of the three marker strings
  and every label, the output of \<open>create_synthetic_proposal\<close> contains exactly one
  \<open>Problem:\<close> (at position 0), exactly one \<open>Hypothesis:\<close> (at position
  \<open>length sentence + 51\<close>) and exactly one \<open>Methodology:\<close> (at position
  \<open>length sentence + 131\<close>), hence in that order; and for all inputs, equal arguments
  give equal output strings.
\<close>

theorem create_synthetic_proposal_markers:
  "(\<not> py_in ''Problem:'' sentence \<and> \<not> py_in ''Hypothesis:'' sentence
      \<and> \<not> py_in ''Methodology:'' sentence \<longrightarrow>
      occurrences ''Problem:'' (create_synthetic_proposal sentence label) = [0]
    \<and> occurrences ''Hypothesis:'' (create_synthetic_proposal sentence label) = [length sentence + 51]
    \<and> occurrences ''Methodology:'' (create_synthetic_proposal sentence label) = [length sentence + 131])
   \<and> (sentence' = sentence \<and> label' = label \<longrightarrow>
        create_synthetic_proposal sentence' label' = create_synthetic_proposal sentence label)"
  by (simp add: occurrences_create_synthetic_proposal py_in_occurrences)

text \<open>The amended claim C2 at the sentence \<open>good movie\<close> with label 0.\<close>

theorem create_synthetic_proposal_markers_witness:
  "\<not> py_in ''Problem:'' ''good movie'' \<and> \<not> py_in ''Hypothesis:'' ''good movie''
    \<and> \<not> py_in ''Methodology:'' ''good movie''
    \<and> occurrences ''Problem:'' (create_synthetic_proposal ''good movie'' 0) = [0]
    \<and> occurrences ''Hypothesis:'' (create_synthetic_proposal ''good movie'' 0) = [61]
    \<and> occurrences ''Methodology:'' (create_synthetic_proposal ''good movie'' 0) = [141]
    \<and> create_synthetic_proposal ''good movie'' 0 = create_synthetic_proposal ''good movie'' 0"
  using create_synthetic_proposal_markers [of "''good movie''" 0 "''good movie''" 0]
  by simp

text \<open>
  Claim C2 as stated fails: the sentence is copied verbatim, so a sentence that contains
  a marker gives an output with two occurrences of it.
\<close>

theorem create_synthetic_proposal_markers_counterexample:
  "occurrences ''Problem:'' (create_synthetic_proposal ''Problem: solved'' 1) = [0, 49]"
  by (simp add: occurrences_create_synthetic_proposal)

subsection \<open>The relevance ratio\<close>

lemma relevance_numerator_filter:
  "relevance_numerator generated = length (filter has_all_markers generated)"
  unfolding relevance_numerator_def by (induction generated) auto

lemma relevance_numerator_le: "relevance_numerator generated \<le> length generated"
  by (simp add: relevance_numerator_filter)

text \<open>
  Claim C5. For every non-empty list of predictions the relevance ratio is the number
  of predictions that contain all three markers divided by the number of predictions;
  it is 1 when every prediction contains all three, 0 when none does, and a prediction
  with exactly two of the three markers adds nothing to the numerator.
\<close>

theorem relevance_ratio:
  "generated \<noteq> [] \<longrightarrow>
     relevance generated =
       Inr (of_nat (length (filter has_all_markers generated)) / of_nat (length generated))
     \<and> ((\<forall>pred \<in> set generated. has_all_markers pred) \<longrightarrow> relevance generated = Inr 1)
     \<and> ((\<forall>pred \<in> set generated. \<not> has_all_markers pred) \<longrightarrow> relevance generated = Inr 0)
     \<and> (py_in ''Problem:'' p \<and> py_in ''Hypothesis:'' p \<and> \<not> py_in ''Methodology:'' p
          \<or> py_in ''Problem:'' p \<and> \<not> py_in ''Hypothesis:'' p \<and> py_in ''Methodology:'' p
          \<or> \<not> py_in ''Problem:'' p \<and> py_in ''Hypothesis:'' p \<and> py_in ''Methodology:'' p
          \<longrightarrow> relevance_numerator (xs @ p # ys) = relevance_numerator (xs @ ys))"
proof (intro impI conjI)
  assume ne: "generated \<noteq> []"
  then show "relevance generated =
       Inr (of_nat (length (filter has_all_markers generated)) / of_nat (length generated))"
    by (simp add: relevance_def relevance_numerator_filter)
  {
    assume "\<forall>pred \<in> set generated. has_all_markers pred"
    then have "filter has_all_markers generated = generated" by (simp add: filter_id_conv)
    with ne show "relevance generated = Inr 1"
      by (simp add: relevance_def relevance_numerator_filter)
  }
  {
    assume "\<forall>pred \<in> set generated. \<not> has_all_markers pred"
    then have "filter has_all_markers generated = []" by (simp add: filter_empty_conv)
    with ne show "relevance generated = Inr 0"
      by (simp add: relevance_def relevance_numerator_filter)
  }
  {
    assume "py_in ''Problem:'' p \<and> py_in ''Hypothesis:'' p \<and> \<not> py_in ''Methodology:'' p
          \<or> py_in ''Problem:'' p \<and> \<not> py_in ''Hypothesis:'' p \<and> py_in ''Methodology:'' p
          \<or> \<not> py_in ''Problem:'' p \<and> py_in ''Hypothesis:'' p \<and> py_in ''Methodology:'' p"
    then have "\<not> has_all_markers p" by (auto simp: has_all_markers_def)
    then show "relevance_numerator (xs @ p # ys) = relevance_numerator (xs @ ys)"
      by (simp add: relevance_numerator_filter)
  }
qed

text \<open>Claim C5 at one-element and two-element lists of predictions.\<close>

theorem relevance_ratio_witness:
  "[''Problem: a Hypothesis: b Methodology: c''] \<noteq> []
   \<and> has_all_markers ''Problem: a Hypothesis: b Methodology: c''
   \<and> relevance [''Problem: a Hypothesis: b Methodology: c''] = Inr 1
   \<and> \<not> has_all_markers ''Problem: a Hypothesis: b''
   \<and> relevance [''Problem: a Hypothesis: b''] = Inr 0
   \<and> relevance [''Problem: a Hypothesis: b Methodology: c'', ''Problem: a Hypothesis: b''] = Inr (1 / 2)
   \<and> py_in ''Problem:'' ''Problem: a Hypothesis: b'' \<and> py_in ''Hypothesis:'' ''Problem: a Hypothesis: b''
   \<and> \<not> py_in ''Methodology:'' ''Problem: a Hypothesis: b''
   \<and> relevance_numerator ([''Problem: a Hypothesis: b Methodology: c''] @ ''Problem: a Hypothesis: b'' # []) =
       relevance_numerator ([''Problem: a Hypothesis: b Methodology: c''] @ [])"
  using relevance_ratio [of "[''Problem: a Hypothesis: b Methodology: c'']"
          "''Problem: a Hypothesis: b''" "[''Problem: a Hypothesis: b Methodology: c'']" "[]"]
        relevance_ratio [of "[''Problem: a Hypothesis: b'']"]
        relevance_ratio [of "[''Problem: a Hypothesis: b Methodology: c'', ''Problem: a Hypothesis: b'']"]
  by (simp add: has_all_markers_def)

text \<open>
  Claim C10. The division is unguarded: on the empty list of predictions the computation
  raises \<open>ZeroDivisionError\<close>, and on every non-empty list it returns a value between 0
  and 1.
\<close>

theorem relevance_division:
  "relevance [] = Inl ZeroDivisionError
   \<and> (generated \<noteq> [] \<longrightarrow> (\<exists>r. relevance generated = Inr r \<and> 0 \<le> r \<and> r \<le> 1))"
proof (intro conjI impI)
  show "relevance [] = Inl ZeroDivisionError" by (simp add: relevance_def)
next
  assume ne: "generated \<noteq> []"
  let ?r = "of_nat (relevance_numerator generated) / of_nat (length generated) :: rat"
  from ne have r: "relevance generated = Inr ?r" by (simp add: relevance_def)
  have "0 \<le> ?r" by simp
  moreover from ne have "?r \<le> 1"
    using relevance_numerator_le [of generated] by (simp add: divide_le_eq_1)
  ultimately show "\<exists>r. relevance generated = Inr r \<and> 0 \<le> r \<and> r \<le> 1"
    using r by blast
qed

text \<open>Claim C10 at a list of three predictions.\<close>

theorem relevance_division_witness:
  "relevance [] = Inl ZeroDivisionError
   \<and> [''Problem: x Hypothesis: y Methodology: z'', ''no markers'', ''Methodology:''] \<noteq> []
   \<and> (\<exists>r. relevance [''Problem: x Hypothesis: y Methodology: z'', ''no markers'', ''Methodology:''] = Inr r
          \<and> 0 \<le> r \<and> r \<le> 1)"
  using relevance_division [of "[''Problem: x Hypothesis: y Methodology: z'', ''no markers'', ''Methodology:'']"]
  by simp

subsection \<open>The novelty score\<close>








subsection \<open>The two-stage split\<close>

lemma mset_map_nth_perm:
  assumes "mset perm = mset [0..<length ds]"
  shows "mset (map ((!) ds) perm) = mset ds"
proof -
  have "mset (map ((!) ds) perm) = image_mset ((!) ds) (mset perm)" by simp
  also have "\<dots> = image_mset ((!) ds) (mset [0..<length ds])" using assms by simp
  also have "\<dots> = mset (map ((!) ds) [0..<length ds])" by simp
  also have "\<dots> = mset ds" by (simp add: map_nth)
  finally show ?thesis .
qed

lemma train_test_split_partition:
  assumes perm: "mset (permutation seed (length ds)) = mset [0..<length ds]"
    and ok: "train_test_split permutation test_size seed ds = Inr (train, test)"
  shows "mset train + mset test = mset ds"
    and "length test = nat \<lceil>test_size * of_nat (length ds)\<rceil>"
    and "length train = length ds - nat \<lceil>test_size * of_nat (length ds)\<rceil>"
    and "0 < test_size" and "test_size < 1" and "0 < length train"
proof -
  let ?n = "length ds"
  let ?p = "permutation seed ?n"
  let ?k = "nat \<lceil>test_size * of_nat ?n\<rceil>"
  from ok have ts: "0 < test_size" "test_size < 1"
    by (auto simp: train_test_split_def Let_def split: if_splits)
  from ok have tr: "train = map ((!) ds) (take (?n - ?k) (drop ?k ?p))"
    and te: "test = map ((!) ds) (take ?k ?p)" and pos: "?n - ?k \<noteq> 0"
    by (auto simp: train_test_split_def Let_def split: if_splits)
  from perm have len: "length ?p = ?n" by (metis mset_eq_length length_upt diff_zero)
  then have "take (?n - ?k) (drop ?k ?p) = drop ?k ?p" by simp
  with tr have tr': "train = map ((!) ds) (drop ?k ?p)" by simp
  have "mset train + mset test = mset (map ((!) ds) (take ?k ?p) @ map ((!) ds) (drop ?k ?p))"
    unfolding tr' te by (simp only: mset_append add.commute)
  also have "\<dots> = mset (map ((!) ds) ?p)"
    by (simp only: map_append [symmetric] append_take_drop_id)
  also have "\<dots> = mset ds" using perm by (rule mset_map_nth_perm)
  finally show "mset train + mset test = mset ds" .
  from pos have "?k \<le> ?n" by simp
  with len show "length test = ?k" by (simp add: te)
  from len show "length train = ?n - ?k" by (simp add: tr')
  with pos show "0 < length train" by simp
  from ts show "0 < test_size" "test_size < 1" .
qed


lemma nat_ceiling_bounds:
  assumes "0 \<le> (x::rat)"
  shows "x \<le> of_nat (nat \<lceil>x\<rceil>)" and "of_nat (nat \<lceil>x\<rceil>) < x + 1"
proof -
  from assms have "0 \<le> \<lceil>x\<rceil>" by simp
  then have eq: "(of_nat (nat \<lceil>x\<rceil>) :: rat) = of_int \<lceil>x\<rceil>" by simp
  show "x \<le> of_nat (nat \<lceil>x\<rceil>)" unfolding eq by (rule le_of_int_ceiling)
  show "of_nat (nat \<lceil>x\<rceil>) < x + 1" unfolding eq using ceiling_correct [of x] by linarith
qed

lemma train_test_split_succeeds:
  assumes "0 < test_size" "test_size < 1"
    and "nat \<lceil>test_size * of_nat (length ds)\<rceil> < length ds"
  shows "\<exists>train test. train_test_split permutation test_size seed ds = Inr (train, test)"
  using assms by (simp add: train_test_split_def Let_def)

text \<open>
  Claim C4. Let the generator return permutations of the index range, and let the
  preprocessed training corpus have at least 6 rows (the corpus of the notebook has
  tens of thousands). Then both splits succeed and give three lists of rows that
  together are exactly the rows of the source (as multisets and as sets), that are
  pairwise disjoint when the rows of the source are distinct (rows identified by their
  position), and whose sizes differ from 0.8, 0.1 and 0.1 of the source size by less
  than 1. The result depends on the generator only through what it returns for seed 42,
  so two runs with the same seed give the same three lists.
\<close>

theorem notebook_split_partition:
  assumes perm: "\<forall>n. mset (permutation 42 n) = mset [0..<n]"
    and size: "6 \<le> length train_data"
  shows "\<exists>train val test.
     notebook_split permutation train_data = Inr (train, val, test)
     \<and> mset train + mset val + mset test = mset train_data
     \<and> set train \<union> set val \<union> set test = set train_data
     \<and> (distinct train_data \<longrightarrow>
          set train \<inter> set val = {} \<and> set train \<inter> set test = {} \<and> set val \<inter> set test = {})
     \<and> \<bar>of_nat (length train) - 8 / 10 * of_nat (length train_data)\<bar> < (1::rat)
     \<and> \<bar>of_nat (length val) - 1 / 10 * of_nat (length train_data)\<bar> < (1::rat)
     \<and> \<bar>of_nat (length test) - 1 / 10 * of_nat (length train_data)\<bar> < (1::rat)
     \<and> length train + length val + length test = length train_data
     \<and> ((\<forall>n. permutation' 42 n = permutation 42 n) \<longrightarrow>
          notebook_split permutation' train_data = notebook_split permutation train_data)"
proof -
  let ?n = "length train_data"
  let ?k1 = "nat \<lceil>(2 / 10 :: rat) * of_nat ?n\<rceil>"
  have n6: "(6::rat) \<le> of_nat ?n" using size by (metis of_nat_le_iff of_nat_numeral)
  have k1: "(2 / 10 :: rat) * of_nat ?n \<le> of_nat ?k1" "of_nat ?k1 < (2 / 10 :: rat) * of_nat ?n + 1"
    by (rule nat_ceiling_bounds, simp)+
  from k1(2) n6 have "(of_nat ?k1 :: rat) < of_nat ?n" by linarith
  then have k1_lt: "?k1 < ?n" by (simp only: of_nat_less_iff)
  from k1(1) n6 have "(1 :: rat) < of_nat ?k1" by linarith
  then have k1_ge: "1 < ?k1" by (metis of_nat_less_iff of_nat_1)
  from train_test_split_succeeds [of "2 / 10" train_data permutation 42] k1_lt
  obtain train temp where s1: "train_test_split permutation (2 / 10) 42 train_data = Inr (train, temp)"
    by auto
  from perm have p1: "mset (permutation 42 ?n) = mset [0..<?n]" by blast
  note f1 = train_test_split_partition [OF p1 s1]
  have lt: "length temp = ?k1" by (rule f1(2))
  let ?k2 = "nat \<lceil>(5 / 10 :: rat) * of_nat (length temp)\<rceil>"
  have k2: "(5 / 10 :: rat) * of_nat (length temp) \<le> of_nat ?k2"
    "of_nat ?k2 < (5 / 10 :: rat) * of_nat (length temp) + 1"
    by (rule nat_ceiling_bounds, simp)+
  have t2: "(2::rat) \<le> of_nat (length temp)"
    using k1_ge lt by (metis Suc_1 Suc_leI of_nat_le_iff of_nat_numeral)
  from k2(2) t2 have "(of_nat ?k2 :: rat) < of_nat (length temp)" by linarith
  then have k2_lt: "?k2 < length temp" by (simp only: of_nat_less_iff)
  from train_test_split_succeeds [of "5 / 10" temp permutation 42] k2_lt
  obtain val test where s2: "train_test_split permutation (5 / 10) 42 temp = Inr (val, test)"
    by auto
  from perm have p2: "mset (permutation 42 (length temp)) = mset [0..<length temp]" by blast
  note f2 = train_test_split_partition [OF p2 s2]
  have res: "notebook_split permutation train_data = Inr (train, val, test)"
    by (simp only: notebook_split_def s1 s2 sum.case fst_conv snd_conv)
  have ms: "mset train + mset val + mset test = mset train_data"
    using f1(1) f2(1) by (simp add: add.assoc)
  then have ms': "mset (train @ val @ test) = mset train_data" by (simp add: add.assoc)
  have sets: "set train \<union> set val \<union> set test = set train_data"
    using mset_eq_setD [OF ms'] by (simp add: Un_assoc)
  have dis: "distinct train_data \<longrightarrow>
          set train \<inter> set val = {} \<and> set train \<inter> set test = {} \<and> set val \<inter> set test = {}"
  proof
    assume "distinct train_data"
    with mset_eq_imp_distinct_iff [OF ms'] have "distinct (train @ val @ test)" by simp
    then show "set train \<inter> set val = {} \<and> set train \<inter> set test = {} \<and> set val \<inter> set test = {}"
      by auto
  qed
  have ltrain: "(of_nat (length train) :: rat) = of_nat ?n - of_nat ?k1"
    using f1(3) k1_lt by (simp add: of_nat_diff)
  have ltest: "length test = ?k2" by (rule f2(2))
  have lval: "(of_nat (length val) :: rat) = of_nat (length temp) - of_nat ?k2"
    using f2(3) k2_lt by (simp add: of_nat_diff)
  have lt': "(of_nat (length temp) :: rat) = of_nat ?k1" using lt by simp
  have "(of_nat (5 * ?k1) :: rat) < of_nat (?n + 5)" using k1(2) by simp
  then have "5 * ?k1 < ?n + 5" by (simp only: of_nat_less_iff)
  then have "5 * ?k1 \<le> ?n + 4" by simp
  then have "(of_nat (5 * ?k1) :: rat) \<le> of_nat (?n + 4)" by (simp only: of_nat_le_iff)
  then have k1i: "5 * (of_nat ?k1 :: rat) \<le> of_nat ?n + 4" by simp
  have "(of_nat (2 * ?k2) :: rat) < of_nat (length temp + 2)" using k2(2) by simp
  then have "2 * ?k2 < length temp + 2" by (simp only: of_nat_less_iff)
  then have "2 * ?k2 \<le> length temp + 1" by simp
  then have "(of_nat (2 * ?k2) :: rat) \<le> of_nat (length temp + 1)" by (simp only: of_nat_le_iff)
  then have k2i: "2 * (of_nat ?k2 :: rat) \<le> of_nat (length temp) + 1" by simp
  have b1: "\<bar>of_nat (length train) - 8 / 10 * of_nat ?n\<bar> < (1::rat)"
    unfolding ltrain using k1 by linarith
  have b2: "\<bar>of_nat (length val) - 1 / 10 * of_nat ?n\<bar> < (1::rat)"
    unfolding lval using k1 k2 lt' by linarith
  have b3: "\<bar>of_nat (length test) - 1 / 10 * of_nat ?n\<bar> < (1::rat)"
    unfolding ltest using k1 k2 k1i k2i lt' by linarith
  have total: "length train + length val + length test = ?n"
    using mset_eq_length [OF ms'] by simp
  have det: "(\<forall>n. permutation' 42 n = permutation 42 n) \<longrightarrow>
          notebook_split permutation' train_data = notebook_split permutation train_data"
    by (simp add: notebook_split_def train_test_split_def Let_def)
  from res ms sets dis b1 b2 b3 total det show ?thesis by blast
qed

text \<open>
  Claim C4 at a source of 20 rows, with the generator that reverses the index range.
\<close>

theorem notebook_split_partition_witness:
  "(\<forall>n. mset ((\<lambda>seed n. rev [0..<n]) (42::nat) n) = mset [0..<n])
   \<and> 6 \<le> length [0..<(20::nat)]
   \<and> notebook_split (\<lambda>seed n. rev [0..<n]) [0..<(20::nat)]
        = Inr ([15, 14, 13, 12, 11, 10, 9, 8, 7, 6, 5, 4, 3, 2, 1, 0], [18, 19], [16, 17])"
proof -
  have h1: "\<forall>n. mset ((\<lambda>seed n. rev [0..<n]) (42::nat) n) = mset [0..<n]" by simp
  have h2: "6 \<le> length [0..<(20::nat)]" by simp
  have r: "notebook_split (\<lambda>seed n. rev [0..<n]) [0..<(20::nat)]
        = Inr ([15, 14, 13, 12, 11, 10, 9, 8, 7, 6, 5, 4, 3, 2, 1, 0], [18, 19], [16, 17])"
    by code_simp
  from notebook_split_partition [OF h1 h2] h1 h2 r show ?thesis by blast
qed

subsection \<open>Tokenisation and label padding\<close>

lemma length_tokenizer_call:
  assumes "0 < max_length"
  shows "length (input_ids (tokenizer_call tok max_length text)) = max_length"
  using assms by (auto simp: tokenizer_call_def Let_def)

lemma tokenizer_call_padding:
  assumes "length (encode_pieces tok text) + 1 \<le> p" "p < max_length"
  shows "input_ids (tokenizer_call tok max_length text) ! p = pad_token_id tok"
    and "attention_mask (tokenizer_call tok max_length text) ! p = 0"
  using assms by (auto simp: tokenizer_call_def Let_def nth_append)

lemma foldr_max_const:
  assumes "xs \<noteq> []" "\<forall>x \<in> set xs. x = (n::nat)"
  shows "foldr max xs 0 = n"
proof -
  from assms(2) have "foldr max xs 0 = (if xs = [] then 0 else n)"
    by (induction xs) auto
  with assms(1) show ?thesis by simp
qed

lemma labels_tokenize_function:
  assumes "length input_texts = length target_texts" "j < length target_texts"
  shows "labels (tokenize_function tok (input_texts, target_texts) ! j) =
           input_ids (tokenizer_call tok 256 (target_texts ! j))"
  using assms by (simp add: tokenize_function_def Let_def)

lemma length_labels_tokenize_function:
  assumes "f \<in> set (tokenize_function tok examples)"
  shows "length (labels f) = 256"
proof -
  from assms obtain i t
    where it: "(i, t) \<in> set (zip (map (tokenizer_call tok 128) (fst examples))
                                (map (tokenizer_call tok 256) (snd examples)))"
    and f: "labels f = input_ids t"
    by (auto simp: tokenize_function_def Let_def)
  from it have "t \<in> set (map (tokenizer_call tok 256) (snd examples))"
    by (rule set_zip_rightD)
  then obtain s where "t = tokenizer_call tok 256 s" by auto
  with f show ?thesis by (simp add: length_tokenizer_call)
qed

lemma labels_data_collator:
  assumes "\<forall>f \<in> set batch. length (labels f) = n" "j < length batch"
  shows "labels (data_collator tok batch ! j) = labels (batch ! j)"
proof -
  from assms(2) have ne: "map (\<lambda>f. length (labels f)) batch \<noteq> []" by auto
  from assms(1) have "\<forall>x \<in> set (map (\<lambda>f. length (labels f)) batch). x = n" by auto
  with ne have "foldr max (map (\<lambda>f. length (labels f)) batch) 0 = n" by (rule foldr_max_const)
  moreover from assms have "length (labels (batch ! j)) = n" by simp
  ultimately show ?thesis using assms(2) by (simp add: data_collator_def Let_def)
qed

text \<open>
  Claim C1 says that the padding positions of the target sequence are flagged so that
  the loss ignores them. The notebook does not do that: \<open>tokenize_function\<close> pads every
  target to 256 tokens with the pad id and stores the padded sequence as the labels, so
  all label sequences of a batch have the same length and \<open>data_collator\<close> never adds
  its \<open>-100\<close>. For every batch of examples and every target with fewer than 255 pieces,
  each padding position \<open>p\<close> of the target (attention mask 0) carries the pad id as its
  label after collation, which is not \<open>-100\<close>, and is one of the positions the loss
  counts.
\<close>

theorem target_padding_counts_in_loss:
  assumes "0 \<le> pad_token_id tok"
    and "length input_texts = length target_texts"
    and "j < length target_texts"
    and "length (encode_pieces tok (target_texts ! j)) + 1 \<le> p"
    and "p < 256"
  shows "attention_mask (tokenizer_call tok 256 (target_texts ! j)) ! p = 0
    \<and> labels (data_collator tok (tokenize_function tok (input_texts, target_texts)) ! j) ! p
        = pad_token_id tok
    \<and> labels (data_collator tok (tokenize_function tok (input_texts, target_texts)) ! j) ! p
        \<noteq> ignore_index
    \<and> p \<in> set (loss_positions
          (labels (data_collator tok (tokenize_function tok (input_texts, target_texts)) ! j)))"
proof -
  let ?rows = "tokenize_function tok (input_texts, target_texts)"
  let ?enc = "tokenizer_call tok 256 (target_texts ! j)"
  have len: "length ?rows = length target_texts"
    using assms(2) by (simp add: tokenize_function_def Let_def)
  have all: "\<forall>f \<in> set ?rows. length (labels f) = 256"
    by (simp add: length_labels_tokenize_function)
  from assms(3) len have j: "j < length ?rows" by simp
  have "labels (data_collator tok ?rows ! j) = labels (?rows ! j)"
    using all j by (rule labels_data_collator)
  also have "\<dots> = input_ids ?enc" using assms(2,3) by (rule labels_tokenize_function)
  finally have lab: "labels (data_collator tok ?rows ! j) = input_ids ?enc" .
  have pad: "input_ids ?enc ! p = pad_token_id tok" and mask: "attention_mask ?enc ! p = 0"
    using assms(4,5) by (rule tokenizer_call_padding)+
  have ne: "pad_token_id tok \<noteq> ignore_index" using assms(1) by (simp add: ignore_index_def)
  have "length (input_ids ?enc) = 256" by (simp add: length_tokenizer_call)
  with pad ne assms(5) have "p \<in> set (loss_positions (input_ids ?enc))"
    by (simp add: loss_positions_def)
  with lab pad mask ne show ?thesis by simp
qed

text \<open>
  The same at a one-row batch with a tokenizer that gives one id per character: the
  target \<open>out\<close> has 3 pieces, so position 4 is padding.
\<close>

theorem target_padding_counts_in_loss_witness:
  "(0::int) \<le> pad_token_id \<lparr>encode_pieces = map (\<lambda>c. 2 + of_char c), eos_token_id = 1, pad_token_id = 0\<rparr>
   \<and> length [''in''] = length [''out'']
   \<and> (0::nat) < length [''out'']
   \<and> length (encode_pieces \<lparr>encode_pieces = map (\<lambda>c. 2 + of_char c), eos_token_id = 1, pad_token_id = 0\<rparr>
        ([''out''] ! 0)) + 1 \<le> 4
   \<and> (4::nat) < 256
   \<and> labels (data_collator \<lparr>encode_pieces = map (\<lambda>c. 2 + of_char c), eos_token_id = 1, pad_token_id = 0\<rparr>
        (tokenize_function \<lparr>encode_pieces = map (\<lambda>c. 2 + of_char c), eos_token_id = 1, pad_token_id = 0\<rparr>
           ([''in''], [''out''])) ! 0) ! 4 = 0
   \<and> 4 \<in> set (loss_positions (labels (data_collator
        \<lparr>encode_pieces = map (\<lambda>c. 2 + of_char c), eos_token_id = 1, pad_token_id = 0\<rparr>
        (tokenize_function \<lparr>encode_pieces = map (\<lambda>c. 2 + of_char c), eos_token_id = 1, pad_token_id = 0\<rparr>
           ([''in''], [''out''])) ! 0)))"
  using target_padding_counts_in_loss
    [of "\<lparr>encode_pieces = map (\<lambda>c. 2 + of_char c), eos_token_id = 1, pad_token_id = 0\<rparr>"
        "[''in'']" "[''out'']" 0 4]
  by simp

subsection \<open>Guarded and unguarded stages\<close>

text \<open>
  Claim C7, amended. Let \<open>st\<close> be the first stage that raises, with exception \<open>e\<close>. If
  \<open>st\<close> is the dataset load or the model/tokenizer load and \<open>e\<close> is an instance of
  \<open>Exception\<close>, the handler prints its diagnostic with \<open>str(e)\<close> and raises
  \<open>SystemExit\<close> with its message, which ends the run: nothing else is printed after the
  output of the earlier stages and no later stage runs (the preprocessing, the third
  guarded stage, does the same with its own texts). If \<open>st\<close> is one of the guarded
  stages and \<open>e\<close> is not an instance of \<open>Exception\<close>, the handler does not take it: no
  diagnostic is printed and the run ends with \<open>e\<close> itself. If \<open>st\<close> is any stage other
  than the two loads and the preprocessing, the run ends with \<open>e\<close> uncaught, whatever
  \<open>e\<close> is, and no later stage runs.
\<close>

theorem guarded_loads_exit:
  assumes "first_failure env = Some st" and "env st = Raises e"
  shows "(st = LoadDataset \<and> is_Exception e \<longrightarrow>
            notebook env =
              \<lparr>stdout = [Printed (''Error loading dataset: '' @ str_of e)],
               final = SystemExit
                 ''Dataset loading failed. Please check Hugging Face access or try 'rotten_tomatoes' dataset.''\<rparr>)
       \<and> (st = LoadModel \<and> is_Exception e \<longrightarrow>
            notebook env =
              \<lparr>stdout = map StageOutput [LoadDataset, PrintSample, Preprocess, Split]
                  @ [Printed (''Error loading model/tokenizer: '' @ str_of e)],
               final = SystemExit ''Model loading failed. Check Hugging Face access.''\<rparr>)
       \<and> (st = Preprocess \<and> is_Exception e \<longrightarrow>
            notebook env =
              \<lparr>stdout = map StageOutput [LoadDataset, PrintSample]
                  @ [Printed (''Error in preprocessing: '' @ str_of e)],
               final = SystemExit ''Preprocessing failed. Check dataset structure.''\<rparr>)
       \<and> (st \<in> {LoadDataset, Preprocess, LoadModel} \<and> \<not> is_Exception e \<longrightarrow>
            notebook env =
              \<lparr>stdout = map StageOutput (takeWhile (\<lambda>s. s \<noteq> st) stages), final = Uncaught e\<rparr>)
       \<and> (st \<in> {PrintSample, Split, ApplyLora, Tokenize, Train, Evaluate} \<longrightarrow>
            notebook env =
              \<lparr>stdout = map StageOutput (takeWhile (\<lambda>s. s \<noteq> st) stages), final = Uncaught e\<rparr>)"
  using assms
  by (cases st)
     (auto simp: first_failure_def stages_def notebook_def try_except_def unguarded_def
           split: if_splits outcome.splits)

text \<open>
  The amended claim C7 at five runs: the dataset load, the model load, the preprocessing
  and the training raise an instance of \<open>Exception\<close>, and the model load raises an
  exception that is not one.
\<close>

theorem guarded_loads_exit_witness:
  "first_failure (raising LoadDataset (ExceptionInstance ''offline'')) = Some LoadDataset
   \<and> raising LoadDataset (ExceptionInstance ''offline'') LoadDataset
        = Raises (ExceptionInstance ''offline'')
   \<and> is_Exception (ExceptionInstance ''offline'')
   \<and> notebook (raising LoadDataset (ExceptionInstance ''offline'')) =
        \<lparr>stdout = [Printed ''Error loading dataset: offline''],
         final = SystemExit
           ''Dataset loading failed. Please check Hugging Face access or try 'rotten_tomatoes' dataset.''\<rparr>
   \<and> first_failure (raising LoadModel (ExceptionInstance ''offline'')) = Some LoadModel
   \<and> raising LoadModel (ExceptionInstance ''offline'') LoadModel
        = Raises (ExceptionInstance ''offline'')
   \<and> notebook (raising LoadModel (ExceptionInstance ''offline'')) =
        \<lparr>stdout = [StageOutput LoadDataset, StageOutput PrintSample, StageOutput Preprocess,
                   StageOutput Split, Printed ''Error loading model/tokenizer: offline''],
         final = SystemExit ''Model loading failed. Check Hugging Face access.''\<rparr>
   \<and> first_failure (raising Preprocess (ExceptionInstance ''no column'')) = Some Preprocess
   \<and> raising Preprocess (ExceptionInstance ''no column'') Preprocess
        = Raises (ExceptionInstance ''no column'')
   \<and> notebook (raising Preprocess (ExceptionInstance ''no column'')) =
        \<lparr>stdout = [StageOutput LoadDataset, StageOutput PrintSample,
                   Printed ''Error in preprocessing: no column''],
         final = SystemExit ''Preprocessing failed. Check dataset structure.''\<rparr>
   \<and> first_failure (raising LoadModel (OtherBaseException ''exit'')) = Some LoadModel
   \<and> raising LoadModel (OtherBaseException ''exit'') LoadModel
        = Raises (OtherBaseException ''exit'')
   \<and> LoadModel \<in> {LoadDataset, Preprocess, LoadModel}
   \<and> \<not> is_Exception (OtherBaseException ''exit'')
   \<and> notebook (raising LoadModel (OtherBaseException ''exit'')) =
        \<lparr>stdout = [StageOutput LoadDataset, StageOutput PrintSample, StageOutput Preprocess,
                   StageOutput Split],
         final = Uncaught (OtherBaseException ''exit'')\<rparr>
   \<and> first_failure (raising Train (ExceptionInstance ''out of memory'')) = Some Train
   \<and> raising Train (ExceptionInstance ''out of memory'') Train
        = Raises (ExceptionInstance ''out of memory'')
   \<and> Train \<in> {PrintSample, Split, ApplyLora, Tokenize, Train, Evaluate}
   \<and> notebook (raising Train (ExceptionInstance ''out of memory'')) =
        \<lparr>stdout = [StageOutput LoadDataset, StageOutput PrintSample, StageOutput Preprocess,
                   StageOutput Split, StageOutput LoadModel, StageOutput ApplyLora,
                   StageOutput Tokenize],
         final = Uncaught (ExceptionInstance ''out of memory'')\<rparr>"
proof -
  have a1: "first_failure (raising LoadDataset (ExceptionInstance ''offline'')) = Some LoadDataset"
    and a2: "first_failure (raising LoadModel (ExceptionInstance ''offline'')) = Some LoadModel"
    and a3: "first_failure (raising Train (ExceptionInstance ''out of memory'')) = Some Train"
    and a4: "first_failure (raising LoadModel (OtherBaseException ''exit'')) = Some LoadModel"
    and a5: "first_failure (raising Preprocess (ExceptionInstance ''no column'')) = Some Preprocess"
    by (simp_all add: first_failure_def stages_def raising_def all_return_def)
  have b1: "raising LoadDataset (ExceptionInstance ''offline'') LoadDataset
              = Raises (ExceptionInstance ''offline'')"
    and b2: "raising LoadModel (ExceptionInstance ''offline'') LoadModel
              = Raises (ExceptionInstance ''offline'')"
    and b3: "raising Train (ExceptionInstance ''out of memory'') Train
              = Raises (ExceptionInstance ''out of memory'')"
    and b4: "raising LoadModel (OtherBaseException ''exit'') LoadModel
              = Raises (OtherBaseException ''exit'')"
    and b5: "raising Preprocess (ExceptionInstance ''no column'') Preprocess
              = Raises (ExceptionInstance ''no column'')"
    by (simp_all add: raising_def)
  from guarded_loads_exit [OF a1 b1] guarded_loads_exit [OF a2 b2] guarded_loads_exit [OF a3 b3]
    guarded_loads_exit [OF a4 b4] guarded_loads_exit [OF a5 b5] a1 a2 a3 a4 a5 b1 b2 b3 b4 b5
  show ?thesis by (simp add: stages_def)
qed

text \<open>
  Claim C7 as stated fails: \<open>except Exception\<close> does not take every failure. When the
  dataset load is interrupted (\<open>KeyboardInterrupt\<close>), the exception is not caught and no
  diagnostic is printed.
\<close>

theorem guarded_loads_exit_counterexample:
  "notebook (raising LoadDataset KeyboardInterrupt)
     = \<lparr>stdout = [], final = Uncaught KeyboardInterrupt\<rparr>"
  by (simp add: notebook_def try_except_def raising_def)

subsection \<open>Validation changes no parameter\<close>

lemma validation_loop_effect:
  "validation_loop lib val_loader s =
     s\<lparr>val_loss := val_loss s + sum_list (map (forward lib (training s) (params s)) val_loader)\<rparr>"
  unfolding validation_loop_def
proof (induction val_loader arbitrary: s)
  case Nil
  show ?case by simp
next
  case (Cons b bs)
  let ?s1 = "validation_step lib s b"
  have "foldl (validation_step lib) s (b # bs) = foldl (validation_step lib) ?s1 bs"
    by simp
  also have "\<dots> = ?s1\<lparr>val_loss := val_loss ?s1
                + sum_list (map (forward lib (training ?s1) (params ?s1)) bs)\<rparr>"
    by (rule Cons.IH)
  also have "\<dots> = s\<lparr>val_loss := val_loss s
                + sum_list (map (forward lib (training s) (params s)) (b # bs))\<rparr>"
    by (simp add: validation_step_def add.assoc)
  finally show ?case .
qed

lemma validation_phase_effect:
  "validation_phase lib val_loader s =
     (if val_loader = [] then Inl ZeroDivisionError
      else Inr (s\<lparr>training := False,
                  val_loss := sum_list (map (forward lib False (params s)) val_loader),
                  val_losses := val_losses s
                    @ [sum_list (map (forward lib False (params s)) val_loader)
                         / real (length val_loader)]\<rparr>))"
  by (simp add: validation_phase_def validation_loop_effect Let_def)

text \<open>
  Claim C8. The validation loop runs the forward pass on every batch with the parameters
  it started with and changes nothing but the running validation loss: parameters
  (adapter matrices included), stored gradients and optimizer state are those of the
  start, also after the whole validation phase (which, around the loop, switches the
  model to evaluation mode, resets the running sum and appends the epoch average to
  \<open>val_losses\<close>). A validation step adds to its running loss what a training step in the
  same state adds to its own; the training step alone goes on to \<open>backward\<close> and
  \<open>optimizer_step\<close>.
\<close>

theorem validation_frame:
  "validation_loop lib val_loader s =
     s\<lparr>val_loss := val_loss s + sum_list (map (forward lib (training s) (params s)) val_loader)\<rparr>
   \<and> params (validation_loop lib val_loader s) = params s
   \<and> grads (validation_loop lib val_loader s) = grads s
   \<and> opt_state (validation_loop lib val_loader s) = opt_state s
   \<and> val_loss (validation_step lib s batch) - val_loss s
        = total_loss (train_step lib s batch) - total_loss s
   \<and> (validation_phase lib val_loader s = Inr s' \<longrightarrow>
        params s' = params s \<and> grads s' = grads s \<and> opt_state s' = opt_state s)"
proof -
  have "validation_phase lib val_loader s = Inr s' \<longrightarrow>
        params s' = params s \<and> grads s' = grads s \<and> opt_state s' = opt_state s"
    by (auto simp: validation_phase_effect split: if_splits)
  moreover have "val_loss (validation_step lib s batch) - val_loss s
        = total_loss (train_step lib s batch) - total_loss s"
    by (simp add: validation_step_def train_step_def Let_def split: prod.splits)
  ultimately show ?thesis by (simp add: validation_loop_effect)
qed

text \<open>
  Claim C8 at the example backend with two validation batches; a training step from the
  same state does change the parameter.
\<close>

theorem validation_frame_witness:
  "validation_phase toy_backend [1, 2] toy_state =
     Inr \<lparr>params = 3, grads = 0, opt_state = 7, training = False, total_loss = 5, val_loss = 5,
          train_losses = [5], val_losses = [5 / 2]\<rparr>
   \<and> params \<lparr>params = 3::int, grads = 0::int, opt_state = 7::nat, training = False, total_loss = 5,
          val_loss = 5, train_losses = [5], val_losses = [5 / 2]\<rparr> = params toy_state
   \<and> params (train_step toy_backend toy_state 1) = -1"
proof -
  have v: "validation_phase toy_backend [1, 2] toy_state =
     Inr \<lparr>params = 3, grads = 0, opt_state = 7, training = False, total_loss = 5, val_loss = 5,
          train_losses = [5], val_losses = [5 / 2]\<rparr>"
    by (simp add: validation_phase_effect toy_backend_def toy_state_def)
  have t: "params (train_step toy_backend toy_state 1) = -1"
    by (simp add: train_step_def toy_backend_def toy_state_def)
  from validation_frame [of toy_backend "[1, 2]" toy_state 1
      "\<lparr>params = 3, grads = 0, opt_state = 7, training = False, total_loss = 5,
          val_loss = 5, train_losses = [5], val_losses = [5 / 2]\<rparr>"] v t
  show ?thesis by simp
qed

subsection \<open>Double precision in the sizes of the split\<close>

text \<open>
  The split sizes are computed in doubles: \<open>ceil(0.2 * n)\<close> and \<open>ceil(0.5 * m)\<close>. For
  sources below \<open>2 ^ 50\<close> rows the rounded products have the ceilings of the exact
  products \<open>n / 5\<close> and \<open>m / 2\<close>, which is what \<open>train_test_split\<close> above computes.
\<close>

declare bit_length.simps [simp del]

lemma bit_length_bounds:
  assumes "0 < n"
  shows "2 ^ (bit_length n - 1) \<le> n \<and> n < 2 ^ bit_length n"
  using assms
proof (induction n rule: bit_length.induct)
  case (1 n)
  show ?case
  proof (cases "n div 2 = 0")
    case True
    with "1.prems" have "n = 1" by (simp add: div_eq_0_iff)
    then show ?thesis by (simp add: bit_length.simps)
  next
    case False
    with "1.IH" "1.prems" have ih: "2 ^ (bit_length (n div 2) - 1) \<le> n div 2"
      "n div 2 < 2 ^ bit_length (n div 2)" by auto
    from False have pos: "0 < bit_length (n div 2)" by (simp add: bit_length.simps)
    have bl: "bit_length n = Suc (bit_length (n div 2))"
      using "1.prems" by (simp add: bit_length.simps)
    from pos have "(2::nat) ^ bit_length (n div 2) = 2 * 2 ^ (bit_length (n div 2) - 1)"
      by (cases "bit_length (n div 2)") auto
    with ih(1) have "2 ^ bit_length (n div 2) \<le> n" by linarith
    moreover from ih(2) have "n < 2 * 2 ^ bit_length (n div 2)" by linarith
    ultimately show ?thesis by (simp add: bl)
  qed
qed

lemma round_half_even_exact:
  assumes "0 \<le> t" "t < 1 / 2"
  shows "round_half_even (of_int a + t) = a"
proof -
  from assms have "\<lfloor>of_int a + t\<rfloor> = a" by (simp add: floor_unique)
  with assms show ?thesis by (simp add: round_half_even_def Let_def)
qed

lemma round_half_even_error:
  "\<bar>of_int (round_half_even y) - y\<bar> \<le> 1 / 2"
proof -
  have "of_int \<lfloor>y\<rfloor> \<le> y" "y < of_int \<lfloor>y\<rfloor> + 1" by linarith+
  then show ?thesis by (auto simp: round_half_even_def Let_def)
qed


lemma round_to_double_error:
  assumes "0 < ulp x"
  shows "\<bar>round_to_double x - x\<bar> \<le> ulp x / 2"
proof -
  let ?u = "ulp x"
  have "round_to_double x - x = (of_int (round_half_even (x / ?u)) - x / ?u) * ?u"
    using assms by (simp add: round_to_double_def algebra_simps)
  then have "\<bar>round_to_double x - x\<bar> = \<bar>of_int (round_half_even (x / ?u)) - x / ?u\<bar> * ?u"
    using assms by (simp add: abs_mult)
  also have "\<dots> \<le> (1 / 2) * ?u"
    using round_half_even_error [of "x / ?u"] assms by (intro mult_right_mono) auto
  finally show ?thesis by simp
qed

lemma double_product_ceiling:
  assumes "5 \<le> n" "n < 2 ^ 50"
  shows "\<lceil>round_to_double (double_0_2 * of_nat n)\<rceil> = \<lceil>(2 / 10 :: rat) * of_nat n\<rceil>"
proof -
  define q r where "q = n div 5" and "r = n mod 5"
  have n: "n = 5 * q + r" and r5: "r < 5" by (simp_all add: q_def r_def)
  from assms(1) have q1: "1 \<le> q" by (simp add: q_def)
  from assms(2) have n50': "n < 1125899906842624" by simp
  then have q48: "q < 2 ^ 48" by (simp add: q_def)
  let ?x = "double_0_2 * of_nat n :: rat"
  let ?q = "of_nat q :: rat" and ?r = "of_nat r :: rat"
  have nq: "(of_nat n :: rat) = 5 * ?q + ?r" by (simp add: n)
  have d: "double_0_2 = 1 / 5 + 1 / 90071992547409920" by (simp add: double_0_2_def)
  have x_eq: "?x = ?q + ?r / 5 + of_nat n / 90071992547409920"
    unfolding d nq by (simp add: distrib_right distrib_left add_divide_distrib)
  from n50' have "(of_nat n :: rat) < of_nat 1125899906842624" by (simp only: of_nat_less_iff)
  then have n50: "(of_nat n :: rat) < 1125899906842624" by simp
  from r5 have "r \<le> 4" by simp
  then have "?r \<le> of_nat 4" by (simp only: of_nat_le_iff)
  then have r_bounds: "0 \<le> ?r" "?r \<le> 4" by simp_all
  have q_pos: "1 \<le> ?q" using q1 by simp
  have xl: "?q + ?r / 5 \<le> ?x" unfolding x_eq by simp
  have xu: "?x < ?q + ?r / 5 + 1 / 80" unfolding x_eq using n50 by simp
  let ?m = "nat \<lfloor>?x\<rfloor>"
  let ?bl = "bit_length ?m"
  have fl: "\<lfloor>?x\<rfloor> = int q"
  proof (rule floor_unique)
    show "of_int (int q) \<le> ?x" using xl r_bounds by simp
    show "?x < of_int (int q) + 1" using xu r_bounds by simp
  qed
  then have m: "?m = q" by simp
  from q1 have bounds: "2 ^ (?bl - 1) \<le> q" "q < 2 ^ ?bl"
    using bit_length_bounds [of q] unfolding m by simp_all
  from bounds(1) q48 have "(2::nat) ^ (?bl - 1) < 2 ^ 48" by (rule le_less_trans)
  then have "?bl - 1 < 48" by (simp only: power_strict_increasing_iff)
  then have bl48: "?bl \<le> 48" by simp
  let ?k = "53 - ?bl"
  have u_def: "ulp ?x = 1 / 2 ^ ?k" by (simp add: ulp_def)
  have k5: "5 \<le> ?k" using bl48 by simp
  have "(2::rat) ^ 5 \<le> 2 ^ ?k" using k5 by (intro power_increasing) auto
  then have p32: "(32::rat) \<le> 2 ^ ?k" by simp
  have u_pos: "0 < ulp ?x" unfolding u_def by simp
  have u_le: "ulp ?x \<le> 1 / 32"
    unfolding u_def using p32 by (simp add: field_simps)
  have err: "\<bar>round_to_double ?x - ?x\<bar> \<le> 1 / 64"
    using round_to_double_error [OF u_pos] u_le by linarith
  show ?thesis
  proof (cases "r = 0")
    case True
    then have xq: "?x = ?q + ?q / 18014398509481984"
      unfolding d nq by (simp add: distrib_right distrib_left add_divide_distrib)
    have "q * 2 ^ ?k * 2 < 2 ^ ?bl * 2 ^ ?k * 2" using bounds(2) by simp
    also have "\<dots> = 2 ^ (?bl + ?k + 1)" by (simp add: power_add)
    also have "?bl + ?k + 1 = 54" using bl48 by simp
    finally have "q * 2 ^ ?k * 2 < 2 ^ 54" .
    then have "(of_nat (q * 2 ^ ?k * 2) :: rat) < of_nat (2 ^ 54)"
      by (simp only: of_nat_less_iff)
    then have t: "?q * 2 ^ ?k / 18014398509481984 < (1 / 2 :: rat)" by simp
    have "?x / ulp ?x = ?x * 2 ^ ?k" by (simp add: u_def)
    also have "\<dots> = of_int (int (q * 2 ^ ?k)) + ?q * 2 ^ ?k / 18014398509481984"
      by (simp add: xq algebra_simps)
    finally have eq: "?x / ulp ?x
        = of_int (int (q * 2 ^ ?k)) + ?q * 2 ^ ?k / 18014398509481984" .
    have t0: "0 \<le> ?q * 2 ^ ?k / 18014398509481984" by simp
    have "round_half_even (?x / ulp ?x) = int (q * 2 ^ ?k)"
      unfolding eq using t0 t by (rule round_half_even_exact)
    then have "round_to_double ?x = ?q"
      by (simp add: round_to_double_def u_def)
    moreover have "(2 / 10 :: rat) * of_nat n = ?q" using True by (simp add: nq)
    ultimately show ?thesis by simp
  next
    case False
    then have "1 \<le> r" by simp
    then have "(of_nat 1 :: rat) \<le> ?r" by (simp only: of_nat_le_iff)
    then have r1: "1 \<le> ?r" by simp
    from err have e: "?x - 1 / 64 \<le> round_to_double ?x" "round_to_double ?x \<le> ?x + 1 / 64"
      by linarith+
    have z: "(of_int (int q + 1) :: rat) = ?q + 1" by simp
    have lo: "of_int (int q + 1) - 1 < round_to_double ?x"
      unfolding z using e(1) xl r1 by linarith
    have hi: "round_to_double ?x \<le> of_int (int q + 1)"
      unfolding z using e(2) xu r_bounds by linarith
    have c1: "\<lceil>round_to_double ?x\<rceil> = int q + 1"
      using lo hi by (rule ceiling_unique)
    have y: "(2 / 10 :: rat) * of_nat n = ?q + ?r / 5" unfolding nq by simp
    have "of_int (int q + 1) - 1 < (2 / 10 :: rat) * of_nat n"
      unfolding z y using r1 by linarith
    moreover have "(2 / 10 :: rat) * of_nat n \<le> of_int (int q + 1)"
      unfolding z y using r_bounds by linarith
    ultimately have "\<lceil>(2 / 10 :: rat) * of_nat n\<rceil> = int q + 1" by (rule ceiling_unique)
    with c1 show ?thesis by simp
  qed
qed


lemma double_half_product:
  assumes "2 \<le> m" "m < 2 ^ 50"
  shows "round_to_double (5 / 10 * of_nat m) = 5 / 10 * of_nat m"
proof -
  let ?x = "5 / 10 * of_nat m :: rat"
  let ?h = "nat \<lfloor>?x\<rfloor>"
  let ?k = "53 - bit_length ?h"
  have fl: "\<lfloor>?x\<rfloor> = int (m div 2)"
  proof -
    have "?x = of_int (int m) / of_int 2" by simp
    then have "\<lfloor>?x\<rfloor> = int m div 2" by (simp only: floor_divide_of_int_eq)
    then show ?thesis by (simp add: zdiv_int)
  qed
  then have h: "?h = m div 2" by simp
  from assms(1) have hpos: "0 < m div 2" by simp
  from assms(2) have "m < 1125899906842624" by simp
  then have h50: "m div 2 < 2 ^ 50" by simp
  from bit_length_bounds [OF hpos] h50 have "(2::nat) ^ (bit_length (m div 2) - 1) < 2 ^ 50"
    by (metis le_less_trans)
  then have "bit_length (m div 2) - 1 < 50" by (simp only: power_strict_increasing_iff)
  then have "1 \<le> ?k" unfolding h by simp
  then obtain j where j: "?k = Suc j" by (cases ?k) auto
  have u: "ulp ?x = 1 / 2 ^ ?k" by (simp add: ulp_def)
  have "?x / ulp ?x = ?x * 2 ^ ?k" unfolding u by simp
  also have "\<dots> = of_int (int (m * 2 ^ j))" unfolding j by simp
  finally have eq: "?x / ulp ?x = of_int (int (m * 2 ^ j)) + 0" by simp
  have "round_half_even (?x / ulp ?x) = int (m * 2 ^ j)"
    unfolding eq by (rule round_half_even_exact) simp_all
  then have "round_to_double ?x = of_int (int (m * 2 ^ j)) * (1 / 2 ^ Suc j)"
    unfolding round_to_double_def u j by simp
  also have "\<dots> = ?x" by simp
  finally show ?thesis .
qed

end
